theory Spec2Isabelle
  imports Complex_Main "HOL-Library.Sublist"
begin

section \<open>Python values and exceptions\<close>

text \<open>
  The hooks receive their arguments from the environment or from a configuration file, so
  the same parameter is an integer on one call and a string on another. The values that
  reach the code are modelled by one datatype; an exception is a value of \<open>error\<close>, and a
  function that can raise returns \<open>error + 'a\<close>.
\<close>

datatype pyval = PyNone | PyBool bool | PyInt int | PyStr string | PyList "pyval list"

datatype error = OSError | IOError | NameError | ValueError | LookupError | UnicodeError
  | AttributeError | CheckerError string | SystemExit int

text \<open>Truth value testing, as \<^verbatim>\<open>if strict:\<close> and \<^verbatim>\<open>if lazy:\<close> do it.\<close>

fun truthy :: "pyval \<Rightarrow> bool" where
  "truthy PyNone = False"
| "truthy (PyBool b) = b"
| "truthy (PyInt n) = (n \<noteq> 0)"
| "truthy (PyStr s) = (s \<noteq> [])"
| "truthy (PyList xs) = (xs \<noteq> [])"

text \<open>
  \<^verbatim>\<open>v > n\<close> for an integer \<open>n\<close> in Python 2 (the source uses \<^verbatim>\<open>xrange\<close> and
  \<^verbatim>\<open>basestring\<close>): \<^verbatim>\<open>None\<close> is below every value, a boolean is the integer 0 or 1, and
  values of other types are ordered by type name, where \<^verbatim>\<open>'str'\<close> and \<^verbatim>\<open>'list'\<close>
  are above \<^verbatim>\<open>'int'\<close>.
\<close>

fun py_gt_int :: "pyval \<Rightarrow> int \<Rightarrow> bool" where
  "py_gt_int PyNone n = False"
| "py_gt_int (PyBool b) n = ((if b then 1 else 0) > n)"
| "py_gt_int (PyInt m) n = (m > n)"
| "py_gt_int (PyStr s) n = True"
| "py_gt_int (PyList xs) n = True"

section \<open>Strings and paths\<close>

definition startswith :: "string \<Rightarrow> string \<Rightarrow> bool" where
  "startswith s pre = prefix pre s"

definition endswith :: "string \<Rightarrow> string \<Rightarrow> bool" where
  "endswith s suf = suffix suf s"

text \<open>\<^verbatim>\<open>posixpath.join(a, b)\<close>.\<close>

definition join :: "string \<Rightarrow> string \<Rightarrow> string" where
  "join a b =
     (if startswith b ''/'' then b
      else if a = [] \<or> endswith a ''/'' then a @ b
      else a @ ''/'' @ b)"

section \<open>run.py: the checkers and \<^verbatim>\<open>check_file\<close>\<close>

text \<open>
  The checkers (flakey, pep8, mccabe) are other packages: they are parameters of the
  model. Each may raise. The module global \<^verbatim>\<open>pep8style\<close> is \<^verbatim>\<open>None\<close> until
  \<^verbatim>\<open>main\<close> or \<^verbatim>\<open>_initpep8\<close> sets it.
\<close>

record style_guide =
  excluded :: "string \<Rightarrow> bool"
  input_file :: "string \<Rightarrow> error + int"

record checkers =
  pep8style :: "style_guide option"
  pep8_StyleGuide :: "style_guide"
  flakey_checkPath :: "string \<Rightarrow> error + string list"
  flakey_print_messages :: "string list \<Rightarrow> pyval \<Rightarrow> error + int"
  mccabe_get_module_complexity :: "string \<Rightarrow> pyval \<Rightarrow> error + int"

text \<open>Every call of a checker is recorded, with its arguments, in the order it is made.\<close>

datatype call =
    Excluded string
  | CheckPath string
  | PrintMessages "string list" pyval
  | InputFile string
  | ModuleComplexity string pyval

type_synonym 'a traced = "call list \<times> (error + 'a)"

definition ret :: "'a \<Rightarrow> 'a traced" where
  "ret x = ([], Inr x)"

definition called :: "call \<Rightarrow> error + 'a \<Rightarrow> 'a traced" where
  "called c r = ([c], r)"

definition and_then :: "'a traced \<Rightarrow> ('a \<Rightarrow> 'b traced) \<Rightarrow> 'b traced" where
  "and_then m f =
     (case m of
        (t, Inl e) \<Rightarrow> (t, Inl e)
      | (t, Inr x) \<Rightarrow> (case f x of (t', r) \<Rightarrow> (t @ t', r)))"

text \<open>
  \<^verbatim>\<open>
  def check_file(path, ignore=(), complexity=-1):
      if pep8style.excluded(path):
          return 0
      warning = flakey.checkPath(path)
      warnings = flakey.print_messages(warning, ignore=ignore)
      warnings += pep8style.input_file(path)
      if complexity > -1:
          warnings += mccabe.get_module_complexity(path, complexity)
      return warnings
  \<close>
\<close>

definition check_file :: "checkers \<Rightarrow> string \<Rightarrow> pyval \<Rightarrow> pyval \<Rightarrow> int traced" where
  "check_file env path ignore complexity =
     (case pep8style env of
        None \<Rightarrow> ([], Inl AttributeError)
      | Some sg \<Rightarrow>
          and_then (called (Excluded path) (Inr (excluded sg path))) (\<lambda>ex.
            if ex then ret 0
            else
              and_then (called (CheckPath path) (flakey_checkPath env path)) (\<lambda>warning.
              and_then (called (PrintMessages warning ignore)
                          (flakey_print_messages env warning ignore)) (\<lambda>warnings.
              and_then (called (InputFile path) (input_file sg path)) (\<lambda>n.
                if py_gt_int complexity (- 1) then
                  and_then (called (ModuleComplexity path complexity)
                              (mccabe_get_module_complexity env path complexity)) (\<lambda>m.
                    ret (warnings + n + m))
                else ret (warnings + n))))))"

text \<open>The default of \<^verbatim>\<open>check_file\<close>'s parameter \<^verbatim>\<open>complexity\<close>.\<close>

definition check_file_default_complexity :: pyval where
  "check_file_default_complexity = PyInt (- 1)"

subsection \<open>run.py: the Mercurial hook\<close>

text \<open>
  Both modules define \<^verbatim>\<open>hg_hook\<close> and \<^verbatim>\<open>git_hook\<close>. Here \<open>run_hg_hook\<close> is
  \<^verbatim>\<open>hg_hook\<close> of run.py, and \<open>git_hook\<close> further down is \<^verbatim>\<open>git_hook\<close> of hooks.py.
\<close>

text \<open>
  The Mercurial objects: \<open>revs\<close> lists \<^verbatim>\<open>repo[rev].files()\<close> for the revisions from
  \<^verbatim>\<open>kwargs['node']\<close> to the tip, \<open>path_exists\<close> is \<^verbatim>\<open>os.path.exists\<close>, \<open>skip_file\<close> is
  \<^verbatim>\<open>flake8.util.skip_file\<close>. \<open>conf_complexity\<close> is the text of the \<^verbatim>\<open>complexity\<close>
  entry of the \<^verbatim>\<open>[flake8]\<close> section when there is one.
\<close>

record hg_repo =
  root :: string
  revs :: "string list list"
  path_exists :: "string \<Rightarrow> bool"
  skip_file :: "string \<Rightarrow> bool"

record hg_ui =
  conf_complexity :: "string option"
  conf_strict :: "bool option"

text \<open>
  \<^verbatim>\<open>
  def _get_files(repo, **kwargs):
      seen = set()
      for rev in range(repo[kwargs['node']], len(repo)):
          for file_ in repo[rev].files():
              file_ = os.path.join(repo.root, file_)
              if file_ in seen or not os.path.exists(file_):
                  continue
              seen.add(file_)
              if not file_.endswith('.py'):
                  continue
              if skip_file(file_):
                  continue
              yield file_
  \<close>
\<close>

fun get_files_loop :: "hg_repo \<Rightarrow> string list \<Rightarrow> string list \<Rightarrow> string list" where
  "get_files_loop repo [] seen = []"
| "get_files_loop repo (f # fs) seen =
     (let fname = join (root repo) f in
      if fname \<in> set seen \<or> \<not> path_exists repo fname then get_files_loop repo fs seen
      else if \<not> endswith fname ''.py'' then get_files_loop repo fs (fname # seen)
      else if skip_file repo fname then get_files_loop repo fs (fname # seen)
      else fname # get_files_loop repo fs (fname # seen))"

definition get_files :: "hg_repo \<Rightarrow> string list" where
  "get_files repo = get_files_loop repo (concat (revs repo)) []"

text \<open>
  \<^verbatim>\<open>_initpep8\<close> creates the style guide when the global is still \<^verbatim>\<open>None\<close>; the options
  it resets afterwards are inside the style guide and have no counterpart here.
\<close>

definition initpep8 :: "checkers \<Rightarrow> checkers" where
  "initpep8 env =
     (case pep8style env of
        None \<Rightarrow> env\<lparr>pep8style := Some (pep8_StyleGuide env)\<rparr>
      | Some sg \<Rightarrow> env)"

definition ui_config_complexity :: "hg_ui \<Rightarrow> pyval" where
  "ui_config_complexity ui = (case conf_complexity ui of None \<Rightarrow> PyInt (- 1) | Some s \<Rightarrow> PyStr s)"

definition ui_configbool_strict :: "hg_ui \<Rightarrow> bool" where
  "ui_configbool_strict ui = (case conf_strict ui of None \<Rightarrow> True | Some b \<Rightarrow> b)"

text \<open>
  \<^verbatim>\<open>
  def hg_hook(ui, repo, **kwargs):
      _initpep8()
      complexity = ui.config('flake8', 'complexity', default=-1)
      warnings = 0
      for file_ in _get_files(repo, **kwargs):
          warnings += check_file(file_, complexity)
      strict = ui.configbool('flake8', 'strict', default=True)
      if strict:
          return warnings
      return 0
  \<close>
  The second positional parameter of \<^verbatim>\<open>check_file\<close> is \<^verbatim>\<open>ignore\<close>; \<^verbatim>\<open>complexity\<close>
  keeps its default.
\<close>

fun hg_check_loop :: "checkers \<Rightarrow> pyval \<Rightarrow> string list \<Rightarrow> int \<Rightarrow> int traced" where
  "hg_check_loop env complexity [] warnings = ret warnings"
| "hg_check_loop env complexity (fname # rest) warnings =
     and_then (check_file env fname complexity check_file_default_complexity) (\<lambda>n.
       hg_check_loop env complexity rest (warnings + n))"

definition run_hg_hook :: "checkers \<Rightarrow> hg_ui \<Rightarrow> hg_repo \<Rightarrow> int traced" where
  "run_hg_hook env ui repo =
     (let env' = initpep8 env;
          complexity = ui_config_complexity ui
      in and_then (hg_check_loop env' complexity (get_files repo) 0) (\<lambda>warnings.
           ret (if ui_configbool_strict ui then warnings else 0)))"

subsection \<open>The result policy\<close>

text \<open>
  hooks.py, the end of \<^verbatim>\<open>git_hook\<close>:
  \<^verbatim>\<open>
      if strict:
          return report.total_errors
      return 0
  \<close>
  run.py, the end of \<^verbatim>\<open>main\<close>:
  \<^verbatim>\<open>
      if options.exit_zero:
          raise SystemExit(0)
      raise SystemExit(warnings)
  \<close>
\<close>

definition git_hook_result :: "pyval \<Rightarrow> int \<Rightarrow> int" where
  "git_hook_result strict total_errors = (if truthy strict then total_errors else 0)"

definition main_exit :: "bool \<Rightarrow> int \<Rightarrow> error" where
  "main_exit exit_zero warnings = (if exit_zero then SystemExit 0 else SystemExit warnings)"

text \<open>
  The policy in the specification's words: a function of the total, the strict flag and
  the exit-zero flag.
\<close>

definition spec_exit_signal :: "int \<Rightarrow> bool \<Rightarrow> bool \<Rightarrow> int" where
  "spec_exit_signal total_errors strict exit_zero =
     (if exit_zero then 0 else if strict then total_errors else 0)"

section \<open>Text\<close>

text \<open>
  A byte string and a decoded text are both lists of \<open>char\<close>: a text is kept as its code
  points below 256. The functions below are Python's string methods on such lists.
\<close>

text \<open>\<^verbatim>\<open>string.whitespace\<close>, also the class \<^verbatim>\<open>\s\<close> of a regular expression on a byte string.\<close>

definition is_space :: "char \<Rightarrow> bool" where
  "is_space c = (c \<in> set [CHR 0x20, CHR 0x09, CHR 0x0A, CHR 0x0D, CHR 0x0B, CHR 0x0C])"

text \<open>The line breaks and the white space of a decoded text (code points below 256).\<close>

definition is_linebreak :: "char \<Rightarrow> bool" where
  "is_linebreak c =
     (c \<in> set [CHR 0x0A, CHR 0x0B, CHR 0x0C, CHR 0x0D, CHR 0x1C, CHR 0x1D, CHR 0x1E, CHR 0x85])"

definition is_uspace :: "char \<Rightarrow> bool" where
  "is_uspace c =
     (c \<in> set [CHR 0x09, CHR 0x0A, CHR 0x0B, CHR 0x0C, CHR 0x0D, CHR 0x1C, CHR 0x1D, CHR 0x1E,
                CHR 0x1F, CHR 0x20, CHR 0x85, CHR 0xA0])"

text \<open>\<^verbatim>\<open>s.split()\<close>: the words between runs of white space.\<close>

fun split_ws :: "string \<Rightarrow> string \<Rightarrow> string list" where
  "split_ws cur [] = (if cur = [] then [] else [cur])"
| "split_ws cur (c # cs) =
     (if is_space c then (if cur = [] then split_ws [] cs else cur # split_ws [] cs)
      else split_ws (cur @ [c]) cs)"

definition py_split :: "string \<Rightarrow> string list" where
  "py_split s = split_ws [] s"

text \<open>\<^verbatim>\<open>s.split(sep)\<close> for a separator of one character: empty fields are kept.\<close>

fun split_on :: "char \<Rightarrow> string \<Rightarrow> string \<Rightarrow> string list" where
  "split_on sep cur [] = [cur]"
| "split_on sep cur (c # cs) =
     (if c = sep then cur # split_on sep [] cs else split_on sep (cur @ [c]) cs)"

definition split_sep :: "char \<Rightarrow> string \<Rightarrow> string list" where
  "split_sep sep s = split_on sep [] s"

text \<open>\<^verbatim>\<open>sep.join(xs)\<close>.\<close>

fun sep_join :: "string \<Rightarrow> string list \<Rightarrow> string" where
  "sep_join sep [] = []"
| "sep_join sep [x] = x"
| "sep_join sep (x # y # ys) = x @ sep @ sep_join sep (y # ys)"

text \<open>\<^verbatim>\<open>s.splitlines()\<close> of a text: \<^verbatim>\<open>\r\n\<close> is one break, and no empty last line.\<close>

fun splitlines_from :: "string \<Rightarrow> string \<Rightarrow> string list" where
  "splitlines_from cur [] = (if cur = [] then [] else [cur])"
| "splitlines_from cur [c] = (if is_linebreak c then [cur] else [cur @ [c]])"
| "splitlines_from cur (c # d # ds) =
     (if c = CHR 0x0D \<and> d = CHR 0x0A then cur # splitlines_from [] ds
      else if is_linebreak c then cur # splitlines_from [] (d # ds)
      else splitlines_from (cur @ [c]) (d # ds))"

definition splitlines :: "string \<Rightarrow> string list" where
  "splitlines s = splitlines_from [] s"

text \<open>\<^verbatim>\<open>s.strip()\<close> of a text.\<close>

definition strip :: "string \<Rightarrow> string" where
  "strip s = rev (dropWhile is_uspace (rev (dropWhile is_uspace s)))"

text \<open>\<^verbatim>\<open>s.replace(old, new)\<close>: every occurrence, found from the left, not overlapping.\<close>

function replace_from :: "string \<Rightarrow> string \<Rightarrow> string \<Rightarrow> string" where
  "replace_from old new [] = []"
| "replace_from old new (c # cs) =
     (if old \<noteq> [] \<and> prefix old (c # cs)
      then new @ replace_from old new (drop (length old) (c # cs))
      else c # replace_from old new cs)"
  by pat_completeness auto
termination
  by (relation "measure (\<lambda>(old, new, s). length s)") auto

definition replace :: "string \<Rightarrow> string \<Rightarrow> string \<Rightarrow> string" where
  "replace s old new =
     (if old = [] then new @ concat (map (\<lambda>c. c # new) s) else replace_from old new s)"

text \<open>\<^verbatim>\<open>fh.readline()\<close>: the line with its newline, and what is left of the file.\<close>

fun readline :: "string \<Rightarrow> string \<times> string" where
  "readline [] = ([], [])"
| "readline (c # cs) =
     (if c = CHR 0x0A then ([c], cs)
      else (case readline cs of (l, r) \<Rightarrow> (c # l, r)))"

section \<open>posixpath\<close>

text \<open>
  The functions of Python 2.7's \<^verbatim>\<open>posixpath\<close> that \<^verbatim>\<open>git_hook\<close> calls, each written
  after the library's code. The current directory is a parameter.
\<close>

definition isabs :: "string \<Rightarrow> bool" where
  "isabs p = startswith p ''/''"

text \<open>
  \<^verbatim>\<open>normpath\<close>: empty and \<^verbatim>\<open>.\<close> components are dropped, \<^verbatim>\<open>..\<close> removes the component
  before it; exactly two leading slashes are kept, as POSIX allows.
\<close>

fun norm_comps :: "bool \<Rightarrow> string list \<Rightarrow> string list \<Rightarrow> string list" where
  "norm_comps init [] new_comps = new_comps"
| "norm_comps init (cmp # comps) new_comps =
     (if cmp = [] \<or> cmp = ''.'' then norm_comps init comps new_comps
      else if cmp \<noteq> ''..'' \<or> (\<not> init \<and> new_comps = [])
              \<or> (new_comps \<noteq> [] \<and> last new_comps = ''..'')
        then norm_comps init comps (new_comps @ [cmp])
      else if new_comps \<noteq> [] then norm_comps init comps (butlast new_comps)
      else norm_comps init comps new_comps)"

definition initial_slashes :: "string \<Rightarrow> nat" where
  "initial_slashes path =
     (if startswith path ''/'' then
        (if startswith path ''//'' \<and> \<not> startswith path ''///'' then 2 else 1)
      else 0)"

definition normpath :: "string \<Rightarrow> string" where
  "normpath path =
     (if path = [] then ''.''
      else
        (let n = initial_slashes path;
             comps = norm_comps (n \<noteq> 0) (split_sep CHR ''/'' path) [];
             p = replicate n CHR ''/'' @ sep_join ''/'' comps
         in if p = [] then ''.'' else p))"

definition abspath :: "string \<Rightarrow> string \<Rightarrow> string" where
  "abspath cwd path = normpath (if isabs path then path else join cwd path)"

text \<open>\<^verbatim>\<open>os.path.split\<close>: the head up to the last slash, and the tail after it.\<close>

definition path_split :: "string \<Rightarrow> string \<times> string" where
  "path_split p =
     (let tail = rev (takeWhile (\<lambda>c. c \<noteq> CHR ''/'') (rev p));
          head = take (length p - length tail) p
      in (if head \<noteq> [] \<and> head \<noteq> replicate (length head) CHR ''/''
          then rev (dropWhile (\<lambda>c. c = CHR ''/'') (rev head))
          else head,
          tail))"

text \<open>
  \<^verbatim>\<open>os.path.commonprefix([a, b])\<close>: the longest common prefix, element by element. On
  two strings it compares characters, not path components.
\<close>

fun commonprefix :: "'a list \<Rightarrow> 'a list \<Rightarrow> 'a list" where
  "commonprefix (x # xs) (y # ys) = (if x = y then x # commonprefix xs ys else [])"
| "commonprefix xs ys = []"

text \<open>\<^verbatim>\<open>os.path.relpath(path, start)\<close>.\<close>

definition path_list :: "string \<Rightarrow> string \<Rightarrow> string list" where
  "path_list cwd p = filter (\<lambda>x. x \<noteq> []) (split_sep CHR ''/'' (abspath cwd p))"

definition relpath :: "string \<Rightarrow> string \<Rightarrow> string \<Rightarrow> error + string" where
  "relpath cwd path start =
     (if path = [] then Inl ValueError
      else
        (let start_list = path_list cwd start;
             path_list = path_list cwd path;
             i = length (commonprefix start_list path_list);
             rel_list = replicate (length start_list - i) ''..'' @ drop i path_list
         in if rel_list = [] then Inr ''.''
            else Inr (foldl join (hd rel_list) (tl rel_list))))"

section \<open>hooks.py: the encoding detector\<close>

text \<open>
  The pattern is \<^verbatim>\<open>coding[=:]\s*([-\w.]+)\<close>, on a byte string and with no flags, so
  \<^verbatim>\<open>\w\<close> is a letter, a digit or the underscore of ASCII.
\<close>

definition is_word :: "char \<Rightarrow> bool" where
  "is_word c =
     (let n = (of_char c :: nat)
      in (48 \<le> n \<and> n \<le> 57) \<or> (65 \<le> n \<and> n \<le> 90) \<or> n = 95 \<or> (97 \<le> n \<and> n \<le> 122))"

definition is_name_char :: "char \<Rightarrow> bool" where
  "is_name_char c = (c = CHR ''-'' \<or> is_word c \<or> c = CHR ''.'')"

text \<open>
  A match that starts at the first character. \<^verbatim>\<open>\s*\<close> and the group are greedy, and
  no character is both white space and a name character, so giving back white space or
  name characters never turns a failed match into a match: the match takes all the white
  space, and the group all the name characters after it.
\<close>

definition coding_match_at :: "string \<Rightarrow> string option" where
  "coding_match_at s =
     (if startswith s ''coding'' then
        (case drop 6 s of
           [] \<Rightarrow> None
         | c # r \<Rightarrow>
             if c = CHR ''='' \<or> c = CHR '':'' then
               (let name = takeWhile is_name_char (dropWhile is_space r)
                in if name = [] then None else Some name)
             else None)
      else None)"

text \<open>\<^verbatim>\<open>re.search(coding_pattern, line)\<close>: the match at the leftmost position that has one;
  the result is \<^verbatim>\<open>match.groups()[0]\<close>.\<close>

fun re_search_coding :: "string \<Rightarrow> string option" where
  "re_search_coding [] = None"
| "re_search_coding (c # cs) =
     (case coding_match_at (c # cs) of
        Some name \<Rightarrow> Some name
      | None \<Rightarrow> re_search_coding cs)"

text \<open>
  \<^verbatim>\<open>
  for i_ in xrange(2):
      line = fh.readline()
      match = re.search(coding_pattern, line)
      if match:
          coding = match.groups()[0]
          break
  else:
      coding = None
  \<close>
\<close>

fun detect_loop :: "nat \<Rightarrow> string \<Rightarrow> string option" where
  "detect_loop 0 fh = None"
| "detect_loop (Suc n) fh =
     (case readline fh of
        (line, rest) \<Rightarrow>
          (case re_search_coding line of
             Some coding \<Rightarrow> Some coding
           | None \<Rightarrow> detect_loop n rest))"

definition detect_coding :: "string \<Rightarrow> string option" where
  "detect_coding fh = detect_loop 2 fh"

text \<open>\<^verbatim>\<open>if coding:\<close>: a name was found (the empty string would count as none).\<close>

definition coding_set :: "string option \<Rightarrow> bool" where
  "coding_set coding = (case coding of None \<Rightarrow> False | Some c \<Rightarrow> c \<noteq> [])"

section \<open>hooks.py: the file system and the outside world\<close>

text \<open>
  The file system maps a normalised absolute path to the bytes of the file there, and
  holds the set of directories. Symbolic links are not modelled.
\<close>

record fs =
  files :: "string \<rightharpoonup> string"
  dirs :: "string set"

text \<open>
  What the hook reaches outside itself: the current directory, the processes it starts
  (\<open>popen\<close> gives the exit status and the two output streams of a command, or the error
  of a command that cannot be started), the codecs, the name \<^verbatim>\<open>mkdtemp\<close> chooses,
  whether \<^verbatim>\<open>rmtree\<close> manages to delete, and \<^verbatim>\<open>flake8.engine.get_style_guide\<close>, whose
  result is the function \<^verbatim>\<open>check_files\<close> giving \<^verbatim>\<open>report.total_errors\<close>.
\<close>

record world =
  cwd :: string
  popen :: "string list \<Rightarrow> error + (int \<times> string \<times> string)"
  decode :: "string option \<Rightarrow> string \<Rightarrow> error + string"
  encode :: "string \<Rightarrow> string \<Rightarrow> error + string"
  mkdtemp_result :: "error + string"
  rmtree_ok :: bool
  get_style_guide :: "pyval \<Rightarrow> pyval \<Rightarrow> error + (fs \<Rightarrow> string list \<Rightarrow> error + int)"

definition isdir :: "world \<Rightarrow> fs \<Rightarrow> string \<Rightarrow> bool" where
  "isdir w fs p = (abspath (cwd w) p \<in> dirs fs)"

text \<open>\<^verbatim>\<open>open(p)\<close> and the reads that follow.\<close>

definition read_file :: "world \<Rightarrow> fs \<Rightarrow> string \<Rightarrow> error + string" where
  "read_file w fs p =
     (case files fs (abspath (cwd w) p) of None \<Rightarrow> Inl IOError | Some content \<Rightarrow> Inr content)"

text \<open>\<^verbatim>\<open>open(p, "wb")\<close> and \<^verbatim>\<open>fh.write(out)\<close>: the directory of \<open>p\<close> has to exist, and
  \<open>p\<close> cannot be a directory.\<close>

definition write_file :: "world \<Rightarrow> fs \<Rightarrow> string \<Rightarrow> string \<Rightarrow> error + fs" where
  "write_file w fs p out =
     (let q = abspath (cwd w) p in
      if q \<in> dirs fs \<or> fst (path_split q) \<notin> dirs fs then Inl IOError
      else Inr (fs\<lparr>files := (files fs)(q \<mapsto> out)\<rparr>))"

text \<open>\<^verbatim>\<open>os.makedirs(p)\<close>: the directory and those above it; none of them may be a file.\<close>

definition dirs_upto :: "string \<Rightarrow> string list" where
  "dirs_upto q =
     (let comps = filter (\<lambda>x. x \<noteq> []) (split_sep CHR ''/'' q)
      in map (\<lambda>k. replicate (initial_slashes q) CHR ''/'' @ sep_join ''/'' (take k comps))
           [1 ..< Suc (length comps)])"

definition makedirs :: "world \<Rightarrow> fs \<Rightarrow> string \<Rightarrow> error + fs" where
  "makedirs w fs p =
     (let ds = dirs_upto (abspath (cwd w) p) in
      if list_ex (\<lambda>d. files fs d \<noteq> None) ds then Inl OSError
      else Inr (fs\<lparr>dirs := dirs fs \<union> set ds\<rparr>))"

text \<open>\<^verbatim>\<open>tempfile.mkdtemp()\<close>: a new directory, or the error of not getting one.\<close>

definition mkdtemp :: "world \<Rightarrow> fs \<Rightarrow> error + (string \<times> fs)" where
  "mkdtemp w fs =
     (case mkdtemp_result w of
        Inl e \<Rightarrow> Inl e
      | Inr tmpdir \<Rightarrow> Inr (tmpdir, fs\<lparr>dirs := insert (abspath (cwd w) tmpdir) (dirs fs)\<rparr>))"

text \<open>
  \<^verbatim>\<open>shutil.rmtree(p, ignore_errors=True)\<close>: the directory and everything below it go; a
  deletion that fails leaves the file system as it is and raises nothing.
\<close>

definition under :: "string \<Rightarrow> string \<Rightarrow> bool" where
  "under r p = (p = r \<or> prefix (r @ ''/'') p)"

definition rmtree :: "world \<Rightarrow> fs \<Rightarrow> string \<Rightarrow> fs" where
  "rmtree w fs p =
     (if rmtree_ok w then
        (let r = abspath (cwd w) p in
         fs\<lparr>files := (\<lambda>q. if under r q then None else files fs q),
            dirs := Set.filter (\<lambda>d. \<not> under r d) (dirs fs)\<rparr>)
      else fs)"

section \<open>hooks.py: \<^verbatim>\<open>run\<close>\<close>

datatype command = CmdStr string | CmdList "string list"

datatype cmd_output = RawOut string | LinesOut "string list"

text \<open>\<^verbatim>\<open>stdout.decode(coding)\<close> when a coding is given, else \<^verbatim>\<open>stdout.decode()\<close>.\<close>

definition py_decode :: "world \<Rightarrow> string option \<Rightarrow> string \<Rightarrow> error + string" where
  "py_decode w coding b = decode w (if coding_set coding then coding else None) b"

text \<open>
  \<^verbatim>\<open>
  def run(command, raw_output=False, coding=None):
      if isinstance(command, basestring):
          command = command.split()
      p = Popen(command, stdout=PIPE, stderr=PIPE)
      (stdout, stderr) = p.communicate()
      if hasattr(stdout, 'decode'):
          if coding:
              stdout = stdout.decode(coding)
          else:
              stdout = stdout.decode()
      if hasattr(stderr, 'decode'):
          ...
      if not raw_output:
          stdout = [line.strip() for line in stdout.splitlines()]
          stderr = [line.strip() for line in stderr.splitlines()]
      return (p.returncode, stdout, stderr)
  \<close>
\<close>

definition run :: "world \<Rightarrow> command \<Rightarrow> bool \<Rightarrow> string option
    \<Rightarrow> error + (int \<times> cmd_output \<times> cmd_output)" where
  "run w command raw_output coding =
     (let argv = (case command of CmdStr s \<Rightarrow> py_split s | CmdList l \<Rightarrow> l) in
      case popen w argv of
        Inl e \<Rightarrow> Inl e
      | Inr (returncode, stdout, stderr) \<Rightarrow>
          (case py_decode w coding stdout of
             Inl e \<Rightarrow> Inl e
           | Inr out \<Rightarrow>
               (case py_decode w coding stderr of
                  Inl e \<Rightarrow> Inl e
                | Inr err \<Rightarrow>
                    if \<not> raw_output
                    then Inr (returncode, LinesOut (map strip (splitlines out)),
                              LinesOut (map strip (splitlines err)))
                    else Inr (returncode, RawOut out, RawOut err))))"

section \<open>hooks.py: \<^verbatim>\<open>git_hook\<close>\<close>

text \<open>
  The path of the staged copy (lines 74 to 80, without the creation of the directory):
  \<^verbatim>\<open>
  dirname, filename = os.path.split(os.path.abspath(file_))
  prefix = os.path.commonprefix([dirname, tmpdir])
  dirname = os.path.relpath(dirname, start=prefix)
  dirname = os.path.join(tmpdir, dirname)
  filename = os.path.join(dirname, filename)
  \<close>
  The result is the pair of the last two values.
\<close>

definition staged_path :: "string \<Rightarrow> string \<Rightarrow> string \<Rightarrow> error + (string \<times> string)" where
  "staged_path here tmpdir fname =
     (case path_split (abspath here fname) of
        (dirname, filename) \<Rightarrow>
          (let pre = commonprefix dirname tmpdir in
           case relpath here dirname pre of
             Inl e \<Rightarrow> Inl e
           | Inr rel \<Rightarrow>
               (let dirname' = join tmpdir rel
                in Inr (dirname', join dirname' filename))))"

text \<open>
  The body of the loop over \<^verbatim>\<open>files_modified\<close>, for one file: it returns the file
  system as it leaves it and either the exception raised or the value of \<^verbatim>\<open>filename\<close>.
  \<^verbatim>\<open>
  with open(file_) as fh:
      <the encoding detector>
  gitcmd_getstaged = ["git", "show", ":%s" % file_]
  _, out, _ = run(gitcmd_getstaged, raw_output=True, coding=coding)
  <the path of the staged copy>
  if not os.path.isdir(dirname):
      os.makedirs(dirname)
  if coding:
      out = out.encode(coding)
  with open(filename, "wb") as fh:
      fh.write(out)
  \<close>
\<close>

definition stage_file :: "world \<Rightarrow> string \<Rightarrow> fs \<Rightarrow> string \<Rightarrow> fs \<times> (error + string)" where
  "stage_file w tmpdir fs fname =
     (case read_file w fs fname of
        Inl e \<Rightarrow> (fs, Inl e)
      | Inr fh \<Rightarrow>
          (let coding = detect_coding fh in
           case run w (CmdList [''git'', ''show'', '':'' @ fname]) True coding of
             Inl e \<Rightarrow> (fs, Inl e)
           | Inr (rc, LinesOut ls, err) \<Rightarrow> (fs, Inl AttributeError)
           | Inr (rc, RawOut out, err) \<Rightarrow>
               (case staged_path (cwd w) tmpdir fname of
                  Inl e \<Rightarrow> (fs, Inl e)
                | Inr (dirname, filename) \<Rightarrow>
                    (case (if \<not> isdir w fs dirname then makedirs w fs dirname else Inr fs) of
                       Inl e \<Rightarrow> (fs, Inl e)
                     | Inr fs1 \<Rightarrow>
                         (case (if coding_set coding then encode w (the coding) out
                                else Inr out) of
                            Inl e \<Rightarrow> (fs1, Inl e)
                          | Inr bytes \<Rightarrow>
                              (case write_file w fs1 filename bytes of
                                 Inl e \<Rightarrow> (fs1, Inl e)
                               | Inr fs2 \<Rightarrow> (fs2, Inr filename)))))))"

text \<open>
  The loop. \<^verbatim>\<open>filename\<close> is a local variable of \<^verbatim>\<open>git_hook\<close>: unbound (\<open>None\<close>)
  until the first pass assigns it, and holding the last path assigned after the loop.
\<close>

fun stage_loop :: "world \<Rightarrow> string \<Rightarrow> string list \<Rightarrow> fs \<Rightarrow> string option
    \<Rightarrow> fs \<times> (error + string option)" where
  "stage_loop w tmpdir [] fs filename = (fs, Inr filename)"
| "stage_loop w tmpdir (f # rest) fs filename =
     (case stage_file w tmpdir fs f of
        (fs', Inl e) \<Rightarrow> (fs', Inl e)
      | (fs', Inr filename') \<Rightarrow> stage_loop w tmpdir rest fs' (Some filename'))"

text \<open>
  The \<^verbatim>\<open>try\<close> block. The two statements after the loop stand at the loop's own
  indentation, so they run once, after the last pass:
  \<^verbatim>\<open>
  try:
      for file_ in files_modified:
          ...
          with open(filename, "wb") as fh:
              fh.write(out)
      files_to_check.append(filename)
      # Run the checks
      report = flake8_style.check_files(files_to_check)
  \<close>
  \<open>files_to_check\<close> is the list \<^verbatim>\<open>check_files\<close> is called with; reading the unbound
  \<^verbatim>\<open>filename\<close> raises \<^verbatim>\<open>UnboundLocalError\<close>, a \<^verbatim>\<open>NameError\<close>.
\<close>

definition files_to_check :: "world \<Rightarrow> string \<Rightarrow> string list \<Rightarrow> fs \<Rightarrow> error + string list" where
  "files_to_check w tmpdir files_modified fs =
     (case stage_loop w tmpdir files_modified fs None of
        (fs', Inl e) \<Rightarrow> Inl e
      | (fs', Inr None) \<Rightarrow> Inl NameError
      | (fs', Inr (Some filename)) \<Rightarrow> Inr ([] @ [filename]))"

definition try_block :: "world \<Rightarrow> (fs \<Rightarrow> string list \<Rightarrow> error + int) \<Rightarrow> string \<Rightarrow> string list \<Rightarrow> fs
    \<Rightarrow> fs \<times> (error + int)" where
  "try_block w check_files tmpdir files_modified fs =
     (let fs' = fst (stage_loop w tmpdir files_modified fs None) in
      case files_to_check w tmpdir files_modified fs of
        Inl e \<Rightarrow> (fs', Inl e)
      | Inr to_check \<Rightarrow> (fs', check_files fs' to_check))"

definition gitcmd :: "pyval \<Rightarrow> string" where
  "gitcmd lazy =
     (let cmd = ''git diff-index --cached --name-only --diff-filter=ACMRTUXB HEAD''
      in if truthy lazy then replace cmd ''--cached '' [] else cmd)"

text \<open>\<^verbatim>\<open>if hasattr(ignore, 'split'): ignore = ignore.split(',')\<close>: a string has \<^verbatim>\<open>split\<close>.\<close>

definition split_ignore :: "pyval \<Rightarrow> pyval" where
  "split_ignore ignore =
     (case ignore of PyStr s \<Rightarrow> PyList (map PyStr (split_sep CHR '','' s)) | _ \<Rightarrow> ignore)"

text \<open>
  Iterating over the first output of \<^verbatim>\<open>run\<close>: with \<^verbatim>\<open>raw_output=False\<close> it is the list
  of lines (a string would give its characters).
\<close>

fun iterate :: "cmd_output \<Rightarrow> string list" where
  "iterate (LinesOut ls) = ls"
| "iterate (RawOut s) = map (\<lambda>c. [c]) s"

text \<open>
  \<^verbatim>\<open>
  def git_hook(complexity=-1, strict=False, ignore=None, lazy=False):
      gitcmd = "git diff-index --cached --name-only --diff-filter=ACMRTUXB HEAD"
      if lazy:
          gitcmd = gitcmd.replace('--cached ', '')
      if hasattr(ignore, 'split'):
          ignore = ignore.split(',')
      _, files_modified, _ = run(gitcmd)
      files_modified = [f for f in files_modified if f.endswith('.py')]
      flake8_style = get_style_guide(
          config_file=DEFAULT_CONFIG, ignore=ignore, max_complexity=complexity)
      tmpdir = mkdtemp()
      files_to_check = []
      coding_pattern = r'coding[=:]\s*([-\w.]+)'
      try:
          <the try block>
      finally:
          shutil.rmtree(tmpdir, ignore_errors=True)
      if strict:
          return report.total_errors
      return 0
  \<close>
  The result is the file system the hook leaves and what it returns or raises.
\<close>

definition git_hook :: "world \<Rightarrow> fs \<Rightarrow> pyval \<Rightarrow> pyval \<Rightarrow> pyval \<Rightarrow> pyval \<Rightarrow> fs \<times> (error + int)" where
  "git_hook w fs complexity strict ignore lazy =
     (case run w (CmdStr (gitcmd lazy)) False None of
        Inl e \<Rightarrow> (fs, Inl e)
      | Inr (rc, out, err) \<Rightarrow>
          (let files_modified = filter (\<lambda>f. endswith f ''.py'') (iterate out) in
           case get_style_guide w (split_ignore ignore) complexity of
             Inl e \<Rightarrow> (fs, Inl e)
           | Inr check_files \<Rightarrow>
               (case mkdtemp w fs of
                  Inl e \<Rightarrow> (fs, Inl e)
                | Inr (tmpdir, fs0) \<Rightarrow>
                    (case try_block w check_files tmpdir files_modified fs0 of
                       (fs1, r) \<Rightarrow>
                         (let fs2 = rmtree w fs1 tmpdir in
                          case r of
                            Inl e \<Rightarrow> (fs2, Inl e)
                          | Inr total_errors \<Rightarrow> (fs2, Inr (git_hook_result strict total_errors)))))))"

section \<open>run.py: \<^verbatim>\<open>read_stdin\<close>\<close>

text \<open>
  Standard input as \<^verbatim>\<open>read_stdin\<close> meets it: \<open>ready_after\<close> is the time in seconds
  after which the descriptor becomes readable, which it is when data is there and also
  when the stream is at its end (\<open>None\<close>: never); \<open>stdin_data\<close> is everything written up
  to the end of the stream (\<open>None\<close>: the stream is never closed, and
  \<^verbatim>\<open>sys.stdin.read()\<close>, which has no timeout, does not return).

  \<^verbatim>\<open>select.select([sys.stdin], [], [], timeout)\<close> returns as soon as the descriptor is
  readable, or with no descriptor when the timeout has passed: the model gives the list of
  readable descriptors (at most the one asked for) and the time spent waiting.
\<close>

record stdin_state =
  ready_after :: "real option"
  stdin_data :: "string option"

datatype stdin_outcome = Returns string | Exits int | Blocks

record stdin_run =
  waited :: real
  printed :: "string list"
  outcome :: stdin_outcome

definition select_stdin :: "stdin_state \<Rightarrow> real \<Rightarrow> bool \<times> real" where
  "select_stdin s timeout =
     (case ready_after s of
        None \<Rightarrow> (False, timeout)
      | Some t \<Rightarrow> if t \<le> timeout then (True, max 0 t) else (False, timeout))"

text \<open>
  \<^verbatim>\<open>
  def read_stdin():
      # wait for 1 second on the stdin fd
      reads, __, __ = select.select([sys.stdin], [], [], 1.)
      if reads == []:
          print('input not specified')
          raise SystemExit(1)
      return sys.stdin.read()
  \<close>
  \<open>waited\<close> is the time spent in \<^verbatim>\<open>select\<close>.
\<close>

definition read_stdin :: "stdin_state \<Rightarrow> stdin_run" where
  "read_stdin s =
     (case select_stdin s 1 of
        (readable, t) \<Rightarrow>
          if \<not> readable
          then \<lparr>waited = t, printed = [''input not specified''], outcome = Exits 1\<rparr>
          else \<lparr>waited = t, printed = [],
                outcome = (case stdin_data s of None \<Rightarrow> Blocks | Some d \<Rightarrow> Returns d)\<rparr>)"

section \<open>Notions of the properties\<close>

text \<open>The calls of the complexity checker in a trace, and the \<^verbatim>\<open>ignore\<close> arguments in it.\<close>

fun is_complexity_call :: "call \<Rightarrow> bool" where
  "is_complexity_call (ModuleComplexity p c) = True"
| "is_complexity_call other = False"

fun ignore_args :: "call list \<Rightarrow> pyval list" where
  "ignore_args [] = []"
| "ignore_args (PrintMessages ws ignore # cs) = ignore # ignore_args cs"
| "ignore_args (other # cs) = ignore_args cs"

text \<open>The first two physical lines of a file, as two calls of \<^verbatim>\<open>readline\<close> give them, and
  a complete line: characters other than newline, then a newline.\<close>

definition first_line :: "string \<Rightarrow> string" where
  "first_line fh = fst (readline fh)"

definition second_line :: "string \<Rightarrow> string" where
  "second_line fh = fst (readline (snd (readline fh)))"

definition is_line :: "string \<Rightarrow> bool" where
  "is_line l = (l \<noteq> [] \<and> last l = CHR 0x0A \<and> CHR 0x0A \<notin> set (butlast l))"

text \<open>Nothing is left of a directory: neither the directory, nor a directory or a file
  below it.\<close>

definition absent :: "fs \<Rightarrow> string \<Rightarrow> bool" where
  "absent fs r = (\<forall>p. under r p \<longrightarrow> p \<notin> dirs fs \<and> files fs p = None)"

text \<open>
  The pattern in the specification's words, \<^verbatim>\<open>coding[=:]\s*<name>\<close>: the string begins
  with a token, \<^verbatim>\<open>coding\<close>, then \<^verbatim>\<open>=\<close> or \<^verbatim>\<open>:\<close>, then white space, then the name, which
  is made of name characters and is not followed by one more.
\<close>

definition spec_coding_token :: "string \<Rightarrow> string \<Rightarrow> bool" where
  "spec_coding_token s name =
     (\<exists>c ws post. s = ''coding'' @ c # ws @ name @ post
        \<and> (c = CHR ''='' \<or> c = CHR '':'') \<and> list_all is_space ws
        \<and> name \<noteq> [] \<and> list_all is_name_char name
        \<and> (post = [] \<or> \<not> is_name_char (hd post)))"

section \<open>Concrete worlds\<close>

text \<open>
  A small world to run the hooks in. The codecs are \<^verbatim>\<open>ascii\<close> (also the default of
  \<^verbatim>\<open>decode()\<close>), which refuses a byte above 127, and \<^verbatim>\<open>latin-1\<close>, which maps every
  byte to the code point of the same number; any other name is unknown.
\<close>

definition ascii_only :: "string \<Rightarrow> bool" where
  "ascii_only s = list_all (\<lambda>c. (of_char c :: nat) < 128) s"

definition fixture_decode :: "string option \<Rightarrow> string \<Rightarrow> error + string" where
  "fixture_decode coding b =
     (if coding = None \<or> coding = Some ''ascii''
      then (if ascii_only b then Inr b else Inl UnicodeError)
      else if coding = Some ''latin-1'' then Inr b
      else Inl LookupError)"

definition fixture_encode :: "string \<Rightarrow> string \<Rightarrow> error + string" where
  "fixture_encode coding t = fixture_decode (Some coding) t"

text \<open>
  The processes: the enumeration command answers \<open>enum\<close>; \<^verbatim>\<open>git show :path\<close> prints the
  bytes the index holds for the path, and fails with status 128 for a path it does not
  hold; no other program can be started.
\<close>

definition fixture_popen :: "error + (int \<times> string \<times> string) \<Rightarrow> (string \<times> string) list
    \<Rightarrow> string list \<Rightarrow> error + (int \<times> string \<times> string)" where
  "fixture_popen enum index argv =
     (if argv = py_split (gitcmd (PyBool False)) then enum
      else if length argv = 3 \<and> take 2 argv = [''git'', ''show''] \<and> startswith (argv ! 2) '':''
      then (case map_of index (tl (argv ! 2)) of
              Some b \<Rightarrow> Inr (0, b, [])
            | None \<Rightarrow> Inr (128, [], ''fatal: path not in the index''))
      else Inl OSError)"

text \<open>A checker that reports one issue for each file that starts with \<^verbatim>\<open>import os\<close>.\<close>

definition fixture_check_files :: "fs \<Rightarrow> string list \<Rightarrow> error + int" where
  "fixture_check_files fs paths =
     Inr (int (length (filter
       (\<lambda>p. case files fs (normpath p) of Some b \<Rightarrow> startswith b ''import os'' | None \<Rightarrow> False)
       paths)))"

text \<open>A checker that raises.\<close>

definition raising_check_files :: "fs \<Rightarrow> string list \<Rightarrow> error + int" where
  "raising_check_files fs paths = Inl (CheckerError ''mccabe'')"

definition fixture_world :: "string \<Rightarrow> error + (int \<times> string \<times> string) \<Rightarrow> (string \<times> string) list
    \<Rightarrow> (fs \<Rightarrow> string list \<Rightarrow> error + int) \<Rightarrow> bool \<Rightarrow> world" where
  "fixture_world here enum index check ok =
     \<lparr>cwd = here, popen = fixture_popen enum index,
      decode = fixture_decode, encode = fixture_encode,
      mkdtemp_result = Inr ''/tmp/tmpabc'', rmtree_ok = ok,
      get_style_guide = (\<lambda>ignore complexity. Inr check)\<rparr>"

definition fixture_fs :: "(string \<times> string) list \<Rightarrow> string list \<Rightarrow> fs" where
  "fixture_fs tree ds = \<lparr>files = map_of tree, dirs = set ds\<rparr>"

text \<open>
  A repository in \<^verbatim>\<open>/repo\<close> with \<^verbatim>\<open>a.py\<close> and \<^verbatim>\<open>b.py\<close> changed and staged as they are
  in the working tree; \<^verbatim>\<open>a.py\<close> has the one issue.
\<close>

definition ab_index :: "(string \<times> string) list" where
  "ab_index = [(''a.py'', ''import os\<newline>''), (''b.py'', ''x = 1\<newline>'')]"

definition ab_fs :: fs where
  "ab_fs = fixture_fs [(''/repo/a.py'', ''import os\<newline>''), (''/repo/b.py'', ''x = 1\<newline>'')]
             [''/'', ''/repo'', ''/tmp'']"

definition ab_world :: world where
  "ab_world = fixture_world ''/repo'' (Inr (0, ''a.py\<newline>b.py\<newline>'', [])) ab_index
                fixture_check_files True"

text \<open>Checkers for a run of \<^verbatim>\<open>check_file\<close>: everything under \<^verbatim>\<open>build/\<close> is excluded.\<close>

definition demo_style :: style_guide where
  "demo_style = \<lparr>excluded = (\<lambda>p. startswith p ''build/''), input_file = (\<lambda>p. Inr 2)\<rparr>"

definition demo_checkers :: checkers where
  "demo_checkers =
     \<lparr>pep8style = Some demo_style, pep8_StyleGuide = demo_style,
      flakey_checkPath = (\<lambda>p. Inr [''unused import'']),
      flakey_print_messages = (\<lambda>ws ignore. Inr (int (length ws))),
      mccabe_get_module_complexity = (\<lambda>p c. Inr 1)\<rparr>"

text \<open>A Mercurial repository with one changed file, and a threshold of 10 configured.\<close>

definition demo_repo :: hg_repo where
  "demo_repo = \<lparr>root = ''/r'', revs = [[''m.py'', ''README'']],
                 path_exists = (\<lambda>p. True), skip_file = (\<lambda>p. False)\<rparr>"

definition demo_ui :: hg_ui where
  "demo_ui = \<lparr>conf_complexity = Some ''10'', conf_strict = None\<rparr>"

text \<open>The world of \<^verbatim>\<open>a.py\<close> and \<^verbatim>\<open>b.py\<close> with a checker that raises, and with a deletion
  that succeeds or fails.\<close>

definition raising_world :: "bool \<Rightarrow> world" where
  "raising_world ok = fixture_world ''/repo'' (Inr (0, ''a.py\<newline>b.py\<newline>'', [])) ab_index
                raising_check_files ok"

text \<open>
  The enumeration command fails with status 128 after it has printed a name; and the
  program \<^verbatim>\<open>git\<close> cannot be started at all.
\<close>

definition a_index :: "(string \<times> string) list" where
  "a_index = [(''a.py'', ''x = 1\<newline>'')]"

definition a_fs :: fs where
  "a_fs = fixture_fs [(''/repo/a.py'', ''x = 1\<newline>'')] [''/'', ''/repo'', ''/tmp'']"

definition failed_enum_world :: world where
  "failed_enum_world =
     fixture_world ''/repo'' (Inr (128, ''a.py\<newline>'', ''fatal: unable to read tree'')) a_index
       fixture_check_files True"

definition no_git_world :: world where
  "no_git_world = fixture_world ''/repo'' (Inl OSError) a_index fixture_check_files True"

text \<open>
  The index holds \<^verbatim>\<open>a.py\<close> with a coding line and one byte above 127. In one working
  tree the file is as staged; in the other it was edited after staging and has no coding
  line.
\<close>

definition latin1_src :: string where
  "latin1_src = ''# coding: latin-1\<newline>s = '' @ [CHR 0x27, CHR 0xE9, CHR 0x27, CHR 0x0A]"

definition latin1_world :: world where
  "latin1_world =
     fixture_world ''/repo'' (Inr (0, ''a.py\<newline>'', [])) [(''a.py'', latin1_src)]
       fixture_check_files True"

definition tree_as_staged :: fs where
  "tree_as_staged = fixture_fs [(''/repo/a.py'', latin1_src)] [''/'', ''/repo'', ''/tmp'']"

definition tree_edited :: fs where
  "tree_edited = fixture_fs [(''/repo/a.py'', ''s = 1\<newline>'')] [''/'', ''/repo'', ''/tmp'']"

text \<open>
  A repository in \<^verbatim>\<open>/tmp\<close>, the directory of the staging root \<^verbatim>\<open>/tmp/tmpabc\<close>, with
  \<^verbatim>\<open>util.py\<close> and \<^verbatim>\<open>t/util.py\<close> changed.
\<close>

definition util_index :: "(string \<times> string) list" where
  "util_index = [(''util.py'', ''import os\<newline>''), (''t/util.py'', ''x = 1\<newline>'')]"

definition util_fs :: fs where
  "util_fs = fixture_fs [(''/tmp/util.py'', ''import os\<newline>''), (''/tmp/t/util.py'', ''x = 1\<newline>'')]
               [''/'', ''/tmp'', ''/tmp/t'', ''/tmp/tmpabc'']"

definition util_world :: world where
  "util_world =
     fixture_world ''/tmp'' (Inr (0, ''util.py\<newline>t/util.py\<newline>'', [])) util_index
       fixture_check_files True"

section \<open>Properties\<close>

lemma and_then_called_trace:
  "fst (and_then (called c r) f) = c # (case r of Inl e \<Rightarrow> [] | Inr x \<Rightarrow> fst (f x))"
  by (simp add: and_then_def called_def split: sum.splits prod.splits)

lemma fst_and_then:
  "fst (and_then m f) = fst m @ (case snd m of Inl e \<Rightarrow> [] | Inr x \<Rightarrow> fst (f x))"
  by (cases m) (simp add: and_then_def split: sum.splits prod.splits)

lemma fst_ret: "fst (ret x) = []"
  by (simp add: ret_def)

lemma ignore_args_append: "ignore_args (xs @ ys) = ignore_args xs @ ignore_args ys"
  by (induction xs rule: ignore_args.induct) simp_all

lemma check_file_default_trace:
  "filter is_complexity_call (fst (check_file env path ignore check_file_default_complexity)) = []
   \<and> set (ignore_args (fst (check_file env path ignore check_file_default_complexity))) \<subseteq> {ignore}"
  by (simp add: check_file_def check_file_default_complexity_def and_then_called_trace fst_ret
      split: option.splits sum.splits)

lemma hg_check_loop_trace:
  "filter is_complexity_call (fst (hg_check_loop env c fs n)) = []
   \<and> set (ignore_args (fst (hg_check_loop env c fs n))) \<subseteq> {c}"
proof (induction fs arbitrary: n)
  case Nil
  then show ?case by (simp add: fst_ret)
next
  case (Cons f fs)
  have a: "filter is_complexity_call (fst (check_file env f c check_file_default_complexity)) = []"
    and b: "set (ignore_args (fst (check_file env f c check_file_default_complexity))) \<subseteq> {c}"
    using check_file_default_trace [of env f c] by simp_all
  show ?case
    using a b Cons.IH
    by (simp add: fst_and_then ignore_args_append split: sum.splits)
qed

text \<open>
  Claim C9. In run.py's Mercurial hook the value of the \<^verbatim>\<open>complexity\<close> setting goes into
  \<^verbatim>\<open>check_file\<close>'s second parameter, \<^verbatim>\<open>ignore\<close>: whatever the checkers, the repository
  and the configured threshold, the hook's trace holds no call of the complexity checker,
  and every \<^verbatim>\<open>ignore\<close> argument handed to \<^verbatim>\<open>flakey.print_messages\<close> is the configured
  complexity value.
\<close>

theorem hg_hook_never_runs_complexity:
  "filter is_complexity_call (fst (run_hg_hook env ui repo)) = []
   \<and> set (ignore_args (fst (run_hg_hook env ui repo))) \<subseteq> {ui_config_complexity ui}"
  using hg_check_loop_trace [of "initpep8 env" "ui_config_complexity ui" "get_files repo" 0]
  by (simp add: run_hg_hook_def Let_def fst_and_then fst_ret split: sum.splits)

text \<open>With a threshold of 10 configured, the value 10 arrives as \<^verbatim>\<open>ignore\<close> and mccabe is
  not called.\<close>

theorem hg_hook_never_runs_complexity_witness:
  "conf_complexity demo_ui = Some ''10''
   \<and> fst (run_hg_hook demo_checkers demo_ui demo_repo) =
       [Excluded ''/r/m.py'', CheckPath ''/r/m.py'',
        PrintMessages [''unused import''] (PyStr ''10''), InputFile ''/r/m.py'']
   \<and> filter is_complexity_call (fst (run_hg_hook demo_checkers demo_ui demo_repo)) = []"
  using hg_hook_never_runs_complexity [of demo_checkers demo_ui demo_repo]
  by code_simp

text \<open>
  Claim C10. For a path the style guide excludes, \<^verbatim>\<open>check_file\<close> returns 0 and the only
  call it makes is the exclusion test: the semantic, the style and the complexity checker
  are not invoked, whatever the file holds and whatever \<^verbatim>\<open>ignore\<close> and \<^verbatim>\<open>complexity\<close>
  are.
\<close>

theorem check_file_excluded:
  "pep8style env = Some sg \<Longrightarrow> excluded sg path \<Longrightarrow>
   check_file env path ignore complexity = ([Excluded path], Inr 0)"
  by (simp add: check_file_def and_then_def called_def ret_def)

theorem check_file_excluded_witness:
  "pep8style demo_checkers = Some demo_style \<and> excluded demo_style ''build/gen.py''
   \<and> check_file demo_checkers ''build/gen.py'' (PyList []) (PyInt 10)
       = ([Excluded ''build/gen.py''], Inr 0)"
proof -
  have a: "pep8style demo_checkers = Some demo_style" by (simp add: demo_checkers_def)
  have b: "excluded demo_style ''build/gen.py''" by (simp add: demo_style_def startswith_def)
  show ?thesis using a b check_file_excluded [OF a b] by simp
qed

text \<open>
  Claim C3. The result policy. The hook's return value is the specification's exit signal
  for its total and its strict flag with exit-zero unset (the hook has no such flag), and
  the exit status of \<^verbatim>\<open>main\<close> is the specification's exit signal for its count and its
  exit-zero flag with strict set (the command line has no strict flag): exit-zero gives 0,
  else strict gives the total, else 0.
\<close>

theorem result_policy:
  "git_hook_result strict total_errors = spec_exit_signal total_errors (truthy strict) False
   \<and> main_exit exit_zero warnings = SystemExit (spec_exit_signal warnings True exit_zero)"
  by (simp add: git_hook_result_def main_exit_def spec_exit_signal_def)

text \<open>
  Claim C8 fails on the code. Only the wait in \<^verbatim>\<open>select\<close> has a timeout; the
  \<^verbatim>\<open>sys.stdin.read()\<close> after it has none. When data arrives after a fifth of a second
  and the stream is never closed, \<^verbatim>\<open>read_stdin\<close> does not return; and when the stream is
  at its end at once, with nothing written, \<^verbatim>\<open>read_stdin\<close> returns the empty string and
  prints no diagnosis.
\<close>

theorem read_stdin_blocks_or_silent:
  "outcome (read_stdin \<lparr>ready_after = Some (1 / 5), stdin_data = None\<rparr>) = Blocks
   \<and> outcome (read_stdin \<lparr>ready_after = Some 0, stdin_data = Some []\<rparr>) = Returns []
   \<and> printed (read_stdin \<lparr>ready_after = Some 0, stdin_data = Some []\<rparr>) = []"
  by (simp add: read_stdin_def select_stdin_def)

text \<open>
  Claim C8, amended. \<^verbatim>\<open>read_stdin\<close> waits in \<^verbatim>\<open>select\<close> for at most one second for
  standard input to become readable. When it does not become readable within that
  second, \<^verbatim>\<open>read_stdin\<close> prints \<^verbatim>\<open>input not specified\<close> and exits with status 1. When it
  becomes readable in time (data is there, or the stream is at its end), \<^verbatim>\<open>read_stdin\<close>
  prints nothing and reads with no timeout: it returns all that is written until the
  stream is closed (the empty string when nothing is), and does not return when the stream
  is never closed.
\<close>

theorem read_stdin_select_then_read:
  "waited (read_stdin s) \<le> 1
   \<and> ((ready_after s = None \<or> (\<exists>t. ready_after s = Some t \<and> 1 < t)) \<longrightarrow>
        printed (read_stdin s) = [''input not specified''] \<and> outcome (read_stdin s) = Exits 1)
   \<and> (\<forall>t. ready_after s = Some t \<and> t \<le> 1 \<longrightarrow>
        printed (read_stdin s) = []
        \<and> outcome (read_stdin s) = (case stdin_data s of None \<Rightarrow> Blocks | Some d \<Rightarrow> Returns d))"
  by (auto simp: read_stdin_def select_stdin_def split: option.splits)

theorem read_stdin_select_then_read_witness:
  "ready_after \<lparr>ready_after = None, stdin_data = Some ''x = 1''\<rparr> = None
   \<and> outcome (read_stdin \<lparr>ready_after = None, stdin_data = Some ''x = 1''\<rparr>) = Exits 1
   \<and> printed (read_stdin \<lparr>ready_after = None, stdin_data = Some ''x = 1''\<rparr>) = [''input not specified'']
   \<and> waited (read_stdin \<lparr>ready_after = None, stdin_data = Some ''x = 1''\<rparr>) \<le> 1
   \<and> ready_after \<lparr>ready_after = Some 0, stdin_data = Some ''x = 1''\<rparr> = Some 0
   \<and> outcome (read_stdin \<lparr>ready_after = Some 0, stdin_data = Some ''x = 1''\<rparr>) = Returns ''x = 1''
   \<and> printed (read_stdin \<lparr>ready_after = Some 0, stdin_data = Some ''x = 1''\<rparr>) = []
   \<and> outcome (read_stdin \<lparr>ready_after = Some 0, stdin_data = None\<rparr>) = Blocks"
  using read_stdin_select_then_read [of "\<lparr>ready_after = None, stdin_data = Some ''x = 1''\<rparr>"]
    read_stdin_select_then_read [of "\<lparr>ready_after = Some 0, stdin_data = Some ''x = 1''\<rparr>"]
    read_stdin_select_then_read [of "\<lparr>ready_after = Some 0, stdin_data = None\<rparr>"]
  by simp

lemma py_decode_rmtree_ok: "py_decode (w\<lparr>rmtree_ok := b\<rparr>) coding s = py_decode w coding s"
  by (simp add: py_decode_def)

lemma run_rmtree_ok: "run (w\<lparr>rmtree_ok := b\<rparr>) cmd raw coding = run w cmd raw coding"
  by (simp add: run_def py_decode_rmtree_ok cong: sum.case_cong prod.case_cong)

lemma fs_ops_rmtree_ok:
  "read_file (w\<lparr>rmtree_ok := b\<rparr>) fs p = read_file w fs p"
  "isdir (w\<lparr>rmtree_ok := b\<rparr>) fs p = isdir w fs p"
  "makedirs (w\<lparr>rmtree_ok := b\<rparr>) fs p = makedirs w fs p"
  "write_file (w\<lparr>rmtree_ok := b\<rparr>) fs p out = write_file w fs p out"
  by (simp_all add: read_file_def isdir_def makedirs_def write_file_def)

lemma stage_file_rmtree_ok: "stage_file (w\<lparr>rmtree_ok := b\<rparr>) t fs f = stage_file w t fs f"
  by (simp add: stage_file_def run_rmtree_ok fs_ops_rmtree_ok
      cong: sum.case_cong prod.case_cong cmd_output.case_cong if_cong)

lemma stage_loop_rmtree_ok:
  "stage_loop (w\<lparr>rmtree_ok := b\<rparr>) t fm fs fn = stage_loop w t fm fs fn"
  by (induction fm arbitrary: fs fn) (simp_all add: stage_file_rmtree_ok)

lemma try_block_rmtree_ok:
  "try_block (w\<lparr>rmtree_ok := b\<rparr>) chk t fm fs = try_block w chk t fm fs"
  by (simp add: try_block_def files_to_check_def stage_loop_rmtree_ok)

lemma rmtree_absent:
  "rmtree_ok w \<Longrightarrow> absent (rmtree w fs p) (abspath (cwd w) p)"
  by (simp add: rmtree_def absent_def Let_def)

lemma git_hook_result_indep:
  "snd (git_hook (w\<lparr>rmtree_ok := b\<rparr>) fs c s i l) = snd (git_hook w fs c s i l)"
  by (simp add: git_hook_def run_rmtree_ok mkdtemp_def try_block_rmtree_ok Let_def
      split: sum.splits prod.splits)

lemma git_hook_removes_tmpdir:
  assumes "mkdtemp_result w = Inr tmpdir" "absent fs (abspath (cwd w) tmpdir)" "rmtree_ok w"
  shows "absent (fst (git_hook w fs c s i l)) (abspath (cwd w) tmpdir)"
  using assms rmtree_absent [where w = w and p = tmpdir]
  by (auto simp: git_hook_def mkdtemp_def Let_def split: sum.splits prod.splits)

lemma absent_ab_fs: "absent ab_fs ''/tmp/tmpabc''"
  by (auto simp: absent_def ab_fs_def fixture_fs_def under_def)

text \<open>
  Claim C2. The staging root is created by \<^verbatim>\<open>mkdtemp\<close> right before the \<^verbatim>\<open>try\<close> and
  deleted in its \<^verbatim>\<open>finally\<close>. On every exit of the hook (an error before the staging
  root exists, an exception of the staging loop or of a checker, a return with or without
  diagnostics) nothing is left of the staging root when the deletion succeeds; and what
  the hook returns or raises is the same whether the deletion succeeds or fails.
\<close>

theorem git_hook_cleanup:
  "(mkdtemp_result w = Inr tmpdir \<and> absent fs (abspath (cwd w) tmpdir) \<and> rmtree_ok w \<longrightarrow>
      absent (fst (git_hook w fs complexity strict ignore lazy)) (abspath (cwd w) tmpdir))
   \<and> snd (git_hook (w\<lparr>rmtree_ok := b\<rparr>) fs complexity strict ignore lazy)
       = snd (git_hook w fs complexity strict ignore lazy)"
  using git_hook_removes_tmpdir [where w = w and tmpdir = tmpdir and fs = fs and c = complexity
        and s = strict and i = ignore and l = lazy]
    git_hook_result_indep [where w = w and b = b and fs = fs and c = complexity
        and s = strict and i = ignore and l = lazy]
  by blast

text \<open>A checker that raises in the middle of the run: the exception leaves the hook, the
  staging root is gone, and a failed deletion gives the same exception.\<close>

theorem git_hook_cleanup_witness:
  "mkdtemp_result (raising_world True) = Inr ''/tmp/tmpabc''
   \<and> absent ab_fs ''/tmp/tmpabc'' \<and> rmtree_ok (raising_world True)
   \<and> snd (git_hook (raising_world True) ab_fs (PyInt 10) (PyBool True) PyNone (PyBool False))
       = Inl (CheckerError ''mccabe'')
   \<and> absent (fst (git_hook (raising_world True) ab_fs (PyInt 10) (PyBool True) PyNone (PyBool False)))
       ''/tmp/tmpabc''
   \<and> snd (git_hook (raising_world False) ab_fs (PyInt 10) (PyBool True) PyNone (PyBool False))
       = Inl (CheckerError ''mccabe'')"
proof -
  have m: "mkdtemp_result (raising_world True) = Inr ''/tmp/tmpabc''"
    by (simp add: raising_world_def fixture_world_def)
  have k: "rmtree_ok (raising_world True)"
    by (simp add: raising_world_def fixture_world_def)
  have c: "cwd (raising_world True) = ''/repo''"
    by (simp add: raising_world_def fixture_world_def)
  have p: "abspath ''/repo'' ''/tmp/tmpabc'' = ''/tmp/tmpabc''"
    by code_simp
  have r: "snd (git_hook (raising_world True) ab_fs (PyInt 10) (PyBool True) PyNone (PyBool False))
       = Inl (CheckerError ''mccabe'')"
    by code_simp
  have u: "(raising_world True)\<lparr>rmtree_ok := False\<rparr> = raising_world False"
    by (simp add: raising_world_def fixture_world_def)
  show ?thesis
    using git_hook_cleanup [where w = "raising_world True" and tmpdir = "''/tmp/tmpabc''"
        and fs = ab_fs and complexity = "PyInt 10" and strict = "PyBool True" and ignore = PyNone
        and lazy = "PyBool False" and b = False] m k c p r u absent_ab_fs
    by simp
qed

lemma files_to_check_single:
  "files_to_check w tmpdir files_modified fs = Inr paths \<Longrightarrow> length paths = 1"
  by (auto simp: files_to_check_def split: prod.splits sum.splits option.splits)

text \<open>
  Claim C1 fails on the code. With \<^verbatim>\<open>a.py\<close> and \<^verbatim>\<open>b.py\<close> changed and one issue in
  \<^verbatim>\<open>a.py\<close>, both files are staged, but \<^verbatim>\<open>files_to_check.append(filename)\<close> runs once,
  after the loop: \<^verbatim>\<open>check_files\<close> is called with the copy of \<^verbatim>\<open>b.py\<close> alone, and the
  strict hook returns 0. The checker gives 1 on the two staged copies.
\<close>

theorem git_hook_checks_last_file_only:
  "snd (git_hook ab_world ab_fs (PyInt (- 1)) (PyBool True) PyNone (PyBool False)) = Inr 0
   \<and> files_to_check ab_world ''/tmp/tmpabc'' [''a.py'', ''b.py'']
        (snd (projr (mkdtemp ab_world ab_fs))) = Inr [''/tmp/tmpabc/repo/b.py'']
   \<and> files (fst (stage_loop ab_world ''/tmp/tmpabc'' [''a.py'', ''b.py'']
        (snd (projr (mkdtemp ab_world ab_fs))) None)) ''/tmp/tmpabc/repo/a.py''
        = Some ''import os\<newline>''
   \<and> fixture_check_files
        (fst (stage_loop ab_world ''/tmp/tmpabc'' [''a.py'', ''b.py'']
           (snd (projr (mkdtemp ab_world ab_fs))) None))
        [''/tmp/tmpabc/repo/a.py'', ''/tmp/tmpabc/repo/b.py''] = Inr 1"
  by code_simp

text \<open>
  Claim C5 fails on the code. The encoding is read from the file in the working tree
  (\<^verbatim>\<open>open(file_)\<close>), not from the staged bytes. With the same index, the hook passes when
  the working tree is as staged, and raises a decoding error when the coding line was
  edited away in the working tree after staging.
\<close>

theorem git_hook_depends_on_working_tree:
  "detect_coding (the (files tree_as_staged ''/repo/a.py'')) = Some ''latin-1''
   \<and> detect_coding (the (files tree_edited ''/repo/a.py'')) = None
   \<and> snd (git_hook latin1_world tree_as_staged (PyInt (- 1)) (PyBool True) PyNone (PyBool False))
        = Inr 0
   \<and> snd (git_hook latin1_world tree_edited (PyInt (- 1)) (PyBool True) PyNone (PyBool False))
        = Inl UnicodeError"
  by code_simp

text \<open>
  Claim C7 fails on the code. \<^verbatim>\<open>os.path.commonprefix\<close> compares characters, so the
  prefix taken off a directory depends on how far its name agrees with the name of the
  staging root. With the staging root \<^verbatim>\<open>/tmp/tmpabc\<close>, the files \<^verbatim>\<open>/tmp/util.py\<close> and
  \<^verbatim>\<open>/tmp/t/util.py\<close> get the same staged path, and the second copy replaces the first;
  and for a repository in \<^verbatim>\<open>/tmp/test\<close> the staged path of \<^verbatim>\<open>a/util.py\<close> is, once
  normalised, the path of the file in the working tree, outside the staging root.
\<close>

theorem staged_paths_collide:
  "abspath ''/tmp'' ''util.py'' = ''/tmp/util.py''
   \<and> abspath ''/tmp'' ''t/util.py'' = ''/tmp/t/util.py''
   \<and> staged_path ''/tmp'' ''/tmp/tmpabc'' ''util.py''
        = Inr (''/tmp/tmpabc/.'', ''/tmp/tmpabc/./util.py'')
   \<and> staged_path ''/tmp'' ''/tmp/tmpabc'' ''t/util.py''
        = Inr (''/tmp/tmpabc/.'', ''/tmp/tmpabc/./util.py'')
   \<and> files (fst (stage_loop util_world ''/tmp/tmpabc'' [''util.py'', ''t/util.py''] util_fs None))
        ''/tmp/tmpabc/util.py'' = Some ''x = 1\<newline>''
   \<and> staged_path ''/tmp/test'' ''/tmp/tmpabc'' ''a/util.py''
        = Inr (''/tmp/tmpabc/../test/a'', ''/tmp/tmpabc/../test/a/util.py'')
   \<and> normpath ''/tmp/tmpabc/../test/a/util.py'' = abspath ''/tmp/test'' ''a/util.py''"
  by code_simp

lemma gitcmd_argv:
  "py_split (gitcmd lazy) =
     (if truthy lazy
      then [''git'', ''diff-index'', ''--name-only'', ''--diff-filter=ACMRTUXB'', ''HEAD'']
      else [''git'', ''diff-index'', ''--cached'', ''--name-only'', ''--diff-filter=ACMRTUXB'',
            ''HEAD''])"
proof -
  have a: "py_split (replace ''git diff-index --cached --name-only --diff-filter=ACMRTUXB HEAD''
             ''--cached '' []) =
           [''git'', ''diff-index'', ''--name-only'', ''--diff-filter=ACMRTUXB'', ''HEAD'']"
    by code_simp
  have b: "py_split ''git diff-index --cached --name-only --diff-filter=ACMRTUXB HEAD'' =
           [''git'', ''diff-index'', ''--cached'', ''--name-only'', ''--diff-filter=ACMRTUXB'',
            ''HEAD'']"
    by code_simp
  show ?thesis using a b by (simp add: gitcmd_def Let_def)
qed

lemma gitcmd_not_show: "py_split (gitcmd lazy) \<noteq> [''git'', ''show'', x]"
  by (simp add: gitcmd_argv)

lemma py_decode_popen: "py_decode (w\<lparr>popen := f\<rparr>) coding s = py_decode w coding s"
  by (simp add: py_decode_def)

lemma run_show_popen_upd:
  "run (w\<lparr>popen := (popen w)(py_split (gitcmd lazy) := r)\<rparr>) (CmdList [''git'', ''show'', x])
     raw coding = run w (CmdList [''git'', ''show'', x]) raw coding"
  using gitcmd_not_show [of lazy x]
  by (simp add: run_def py_decode_popen cong: sum.case_cong prod.case_cong)

lemma fs_ops_popen:
  "read_file (w\<lparr>popen := f\<rparr>) fs p = read_file w fs p"
  "isdir (w\<lparr>popen := f\<rparr>) fs p = isdir w fs p"
  "makedirs (w\<lparr>popen := f\<rparr>) fs p = makedirs w fs p"
  "write_file (w\<lparr>popen := f\<rparr>) fs p out = write_file w fs p out"
  "rmtree (w\<lparr>popen := f\<rparr>) fs p = rmtree w fs p"
  "mkdtemp (w\<lparr>popen := f\<rparr>) fs = mkdtemp w fs"
  by (simp_all add: read_file_def isdir_def makedirs_def write_file_def rmtree_def mkdtemp_def
      cong: sum.case_cong)

lemma stage_file_popen_upd:
  "stage_file (w\<lparr>popen := (popen w)(py_split (gitcmd lazy) := r)\<rparr>) t fs f = stage_file w t fs f"
  by (simp add: stage_file_def run_show_popen_upd fs_ops_popen
      cong: sum.case_cong prod.case_cong cmd_output.case_cong if_cong)

lemma stage_loop_popen_upd:
  "stage_loop (w\<lparr>popen := (popen w)(py_split (gitcmd lazy) := r)\<rparr>) t fm fs fn
     = stage_loop w t fm fs fn"
  by (induction fm arbitrary: fs fn) (simp_all add: stage_file_popen_upd)

lemma try_block_popen_upd:
  "try_block (w\<lparr>popen := (popen w)(py_split (gitcmd lazy) := r)\<rparr>) chk t fm fs
     = try_block w chk t fm fs"
  by (simp add: try_block_def files_to_check_def stage_loop_popen_upd)

lemma git_hook_popen_error:
  "popen w (py_split (gitcmd lazy)) = Inl e \<Longrightarrow> git_hook w fs c s i lazy = (fs, Inl e)"
  by (simp add: git_hook_def run_def)

lemma git_hook_status_ignored:
  assumes "popen w (py_split (gitcmd lazy)) = Inr (rc, out, err)"
  shows "git_hook (w\<lparr>popen := (popen w)(py_split (gitcmd lazy) := Inr (rc', out, err))\<rparr>)
           fs c s i lazy = git_hook w fs c s i lazy"
  using assms
  by (simp add: git_hook_def run_def py_decode_popen fs_ops_popen try_block_popen_upd Let_def
      split: sum.splits prod.splits)

text \<open>
  Claim C4 fails on the code: the enumeration command exits with status 128 after printing
  \<^verbatim>\<open>a.py\<close>, and the hook stages the file, checks it and returns 0.
\<close>

theorem failed_enumeration_passes:
  "popen failed_enum_world (py_split (gitcmd (PyBool False)))
     = Inr (128, ''a.py\<newline>'', ''fatal: unable to read tree'')
   \<and> files_to_check failed_enum_world ''/tmp/tmpabc'' [''a.py'']
        (snd (projr (mkdtemp failed_enum_world a_fs))) = Inr [''/tmp/tmpabc/repo/a.py'']
   \<and> snd (git_hook failed_enum_world a_fs (PyInt (- 1)) (PyBool True) PyNone (PyBool False))
        = Inr 0"
  by code_simp

text \<open>
  Claim C4, amended. \<^verbatim>\<open>git_hook\<close> discards the exit status of the enumeration command
  (\<^verbatim>\<open>_, files_modified, _ = run(gitcmd)\<close>): given the same standard output and standard
  error, the hook leaves the same file system and returns or raises the same whatever the
  status, so a status other than 0 is handled as status 0 is. When the command cannot be
  started, the hook raises the error of starting it and leaves the file system as it
  found it, whatever \<^verbatim>\<open>mkdtemp\<close> and the style guide would do: neither is reached, so no
  staging root is created and no file is staged or checked.
\<close>

theorem git_hook_ignores_exit_status:
  "(popen w (py_split (gitcmd lazy)) = Inl e \<longrightarrow>
      git_hook (w\<lparr>mkdtemp_result := m, get_style_guide := g\<rparr>) fs complexity strict ignore lazy
      = (fs, Inl e))
   \<and> (popen w (py_split (gitcmd lazy)) = Inr (rc, out, err) \<longrightarrow>
      git_hook (w\<lparr>popen := (popen w)(py_split (gitcmd lazy) := Inr (rc', out, err))\<rparr>)
        fs complexity strict ignore lazy
      = git_hook w fs complexity strict ignore lazy)"
  using git_hook_popen_error [where w = "w\<lparr>mkdtemp_result := m, get_style_guide := g\<rparr>"
        and lazy = lazy and e = e and fs = fs and c = complexity and s = strict and i = ignore]
    git_hook_status_ignored [where w = w and lazy = lazy and rc = rc and out = out and err = err
        and rc' = rc' and fs = fs and c = complexity and s = strict and i = ignore]
  by simp

text \<open>
  Without \<^verbatim>\<open>git\<close> the hook raises the error of starting it, also in a world where
  \<^verbatim>\<open>mkdtemp\<close> and the style guide would fail; and the failed enumeration of the
  counterexample gives the same result with status 0.
\<close>

theorem git_hook_ignores_exit_status_witness:
  "popen no_git_world (py_split (gitcmd (PyBool False))) = Inl OSError
   \<and> git_hook (no_git_world\<lparr>mkdtemp_result := Inl IOError,
          get_style_guide := (\<lambda>ignore complexity. Inl (CheckerError ''no style guide''))\<rparr>)
        a_fs (PyInt (- 1)) (PyBool True) PyNone (PyBool False)
        = (a_fs, Inl OSError)
   \<and> popen failed_enum_world (py_split (gitcmd (PyBool False)))
        = Inr (128, ''a.py\<newline>'', ''fatal: unable to read tree'')
   \<and> snd (git_hook
        (failed_enum_world\<lparr>popen := (popen failed_enum_world)
           (py_split (gitcmd (PyBool False)) := Inr (0, ''a.py\<newline>'', ''fatal: unable to read tree''))\<rparr>)
        a_fs (PyInt (- 1)) (PyBool True) PyNone (PyBool False)) = Inr 0"
proof -
  have a: "popen no_git_world (py_split (gitcmd (PyBool False))) = Inl OSError"
    by code_simp
  have b: "popen failed_enum_world (py_split (gitcmd (PyBool False)))
        = Inr (128, ''a.py\<newline>'', ''fatal: unable to read tree'')"
    by code_simp
  have c: "snd (git_hook failed_enum_world a_fs (PyInt (- 1)) (PyBool True) PyNone (PyBool False))
        = Inr 0"
    by code_simp
  show ?thesis
    using a b c
      git_hook_ignores_exit_status [where w = no_git_world and lazy = "PyBool False"
        and e = OSError and fs = a_fs and complexity = "PyInt (- 1)" and strict = "PyBool True"
        and ignore = PyNone and m = "Inl IOError"
        and g = "\<lambda>ignore complexity. Inl (CheckerError ''no style guide'')"]
      git_hook_ignores_exit_status [where w = failed_enum_world and lazy = "PyBool False"
        and rc = 128 and out = "''a.py\<newline>''" and err = "''fatal: unable to read tree''"
        and rc' = 0 and fs = a_fs and complexity = "PyInt (- 1)" and strict = "PyBool True"
        and ignore = PyNone]
    by simp
qed

lemma name_char_not_space: "is_name_char c \<Longrightarrow> \<not> is_space c"
  by (auto simp: is_space_def is_name_char_def is_word_def)

lemma takeWhile_exact:
  "list_all P xs \<Longrightarrow> ys = [] \<or> \<not> P (hd ys) \<Longrightarrow> takeWhile P (xs @ ys) = xs"
  by (cases ys) (auto simp: list_all_iff takeWhile_append2)

lemma coding_match_at_token:
  assumes "coding_match_at s = Some nm"
  shows "spec_coding_token s nm"
proof -
  from assms have p: "prefix ''coding'' s"
    by (simp add: coding_match_at_def startswith_def split: if_splits)
  then obtain t where s: "s = ''coding'' @ t"
    by (auto simp: prefix_def)
  from assms s obtain c r where t: "t = c # r" and c: "c = CHR ''='' \<or> c = CHR '':''"
    and nm: "nm = takeWhile is_name_char (dropWhile is_space r)" and ne: "nm \<noteq> []"
    by (cases t) (auto simp: coding_match_at_def startswith_def Let_def split: if_splits)
  define ws where "ws = takeWhile is_space r"
  define post where "post = dropWhile is_name_char (dropWhile is_space r)"
  have "r = ws @ nm @ post"
    by (simp add: ws_def nm post_def)
  moreover have "list_all is_space ws"
    by (simp add: ws_def list_all_iff) (meson set_takeWhileD)
  moreover have "list_all is_name_char nm"
    by (simp add: nm list_all_iff) (meson set_takeWhileD)
  moreover have "post = [] \<or> \<not> is_name_char (hd post)"
    unfolding post_def by (metis hd_dropWhile)
  ultimately show ?thesis
    unfolding spec_coding_token_def using s t c ne by blast
qed

lemma token_coding_match_at:
  assumes "spec_coding_token s nm"
  shows "coding_match_at s = Some nm"
proof -
  from assms obtain c ws post where s: "s = ''coding'' @ c # ws @ nm @ post"
    and c: "c = CHR ''='' \<or> c = CHR '':''" and ws: "list_all is_space ws"
    and ne: "nm \<noteq> []" and nm: "list_all is_name_char nm"
    and post: "post = [] \<or> \<not> is_name_char (hd post)"
    unfolding spec_coding_token_def by blast
  from ne obtain n ns where n: "nm = n # ns" by (cases nm) auto
  with nm have "is_name_char n" by simp
  then have "\<not> is_space n" by (rule name_char_not_space)
  then have d: "dropWhile is_space (ws @ nm @ post) = nm @ post"
    using ws n by (simp add: list_all_iff dropWhile_append2)
  have t: "takeWhile is_name_char (nm @ post) = nm"
    using nm post by (rule takeWhile_exact)
  show ?thesis
    using c ne by (auto simp: s coding_match_at_def startswith_def Let_def d t)
qed

lemma coding_match_at_iff: "(coding_match_at s = Some nm) = spec_coding_token s nm"
  using coding_match_at_token token_coding_match_at by blast

lemma coding_match_at_None_iff: "(coding_match_at s = None) = (\<forall>n. \<not> spec_coding_token s n)"
  using coding_match_at_iff [of s] by (cases "coding_match_at s") auto

lemma re_search_coding_leftmost:
  "(re_search_coding line = Some nm) =
     (\<exists>pre suf. line = pre @ suf \<and> coding_match_at suf = Some nm
        \<and> (\<forall>pre' suf'. line = pre' @ suf' \<and> length pre' < length pre
              \<longrightarrow> coding_match_at suf' = None))"
proof (induction line)
  case Nil
  then show ?case by (simp add: coding_match_at_def startswith_def)
next
  case (Cons c cs)
  show ?case
  proof (cases "coding_match_at (c # cs)")
    case (Some a)
    show ?thesis
    proof
      assume "re_search_coding (c # cs) = Some nm"
      with Some have "coding_match_at (c # cs) = Some nm" by simp
      then have "c # cs = [] @ (c # cs) \<and> coding_match_at (c # cs) = Some nm
          \<and> (\<forall>pre' suf'. c # cs = pre' @ suf' \<and> length pre' < length ([]::string)
                \<longrightarrow> coding_match_at suf' = None)"
        by simp
      then show "\<exists>pre suf. c # cs = pre @ suf \<and> coding_match_at suf = Some nm
          \<and> (\<forall>pre' suf'. c # cs = pre' @ suf' \<and> length pre' < length pre
                \<longrightarrow> coding_match_at suf' = None)"
        by blast
    next
      assume "\<exists>pre suf. c # cs = pre @ suf \<and> coding_match_at suf = Some nm
          \<and> (\<forall>pre' suf'. c # cs = pre' @ suf' \<and> length pre' < length pre
                \<longrightarrow> coding_match_at suf' = None)"
      then obtain pre suf where e: "c # cs = pre @ suf" and m: "coding_match_at suf = Some nm"
        and l: "\<forall>pre' suf'. c # cs = pre' @ suf' \<and> length pre' < length pre
                \<longrightarrow> coding_match_at suf' = None"
        by blast
      have "pre = []"
      proof (rule ccontr)
        assume "pre \<noteq> []"
        then have "c # cs = [] @ (c # cs) \<and> length ([]::string) < length pre" by simp
        with l have "coding_match_at (c # cs) = None" by blast
        with Some show False by simp
      qed
      with e m have "coding_match_at (c # cs) = Some nm" by simp
      then show "re_search_coding (c # cs) = Some nm" by simp
    qed
  next
    case None
    show ?thesis
    proof
      assume "re_search_coding (c # cs) = Some nm"
      with None have "re_search_coding cs = Some nm" by simp
      with Cons.IH obtain pre suf where e: "cs = pre @ suf"
        and m: "coding_match_at suf = Some nm"
        and l: "\<forall>pre' suf'. cs = pre' @ suf' \<and> length pre' < length pre
                \<longrightarrow> coding_match_at suf' = None"
        by blast
      have "\<forall>pre' suf'. c # cs = pre' @ suf' \<and> length pre' < length (c # pre)
                \<longrightarrow> coding_match_at suf' = None"
      proof (intro allI impI)
        fix pre' suf' assume a: "c # cs = pre' @ suf' \<and> length pre' < length (c # pre)"
        show "coding_match_at suf' = None"
        proof (cases pre')
          case Nil
          with a None show ?thesis by simp
        next
          case (Cons p ps)
          with a have "cs = ps @ suf' \<and> length ps < length pre" by simp
          with l show ?thesis by blast
        qed
      qed
      with e m have "c # cs = (c # pre) @ suf \<and> coding_match_at suf = Some nm
          \<and> (\<forall>pre' suf'. c # cs = pre' @ suf' \<and> length pre' < length (c # pre)
                \<longrightarrow> coding_match_at suf' = None)"
        by simp
      then show "\<exists>pre suf. c # cs = pre @ suf \<and> coding_match_at suf = Some nm
          \<and> (\<forall>pre' suf'. c # cs = pre' @ suf' \<and> length pre' < length pre
                \<longrightarrow> coding_match_at suf' = None)"
        by blast
    next
      assume "\<exists>pre suf. c # cs = pre @ suf \<and> coding_match_at suf = Some nm
          \<and> (\<forall>pre' suf'. c # cs = pre' @ suf' \<and> length pre' < length pre
                \<longrightarrow> coding_match_at suf' = None)"
      then obtain pre suf where e: "c # cs = pre @ suf" and m: "coding_match_at suf = Some nm"
        and l: "\<forall>pre' suf'. c # cs = pre' @ suf' \<and> length pre' < length pre
                \<longrightarrow> coding_match_at suf' = None"
        by blast
      from e m None obtain ps where ps: "pre = c # ps" and cs: "cs = ps @ suf"
        by (cases pre) auto
      have "\<forall>pre' suf'. cs = pre' @ suf' \<and> length pre' < length ps
                \<longrightarrow> coding_match_at suf' = None"
      proof (intro allI impI)
        fix pre' suf' assume a: "cs = pre' @ suf' \<and> length pre' < length ps"
        then have "c # cs = (c # pre') @ suf' \<and> length (c # pre') < length pre"
          using ps by simp
        with l show "coding_match_at suf' = None" by blast
      qed
      with cs m Cons.IH have "re_search_coding cs = Some nm" by blast
      with None show "re_search_coding (c # cs) = Some nm" by simp
    qed
  qed
qed

lemma re_search_coding_None:
  "(re_search_coding line = None) = (\<forall>pre suf. line = pre @ suf \<longrightarrow> coding_match_at suf = None)"
proof (induction line)
  case Nil
  then show ?case by (simp add: coding_match_at_def startswith_def)
next
  case (Cons c cs)
  show ?case
  proof
    assume a: "re_search_coding (c # cs) = None"
    then have m: "coding_match_at (c # cs) = None" and r: "re_search_coding cs = None"
      by (auto split: option.splits)
    show "\<forall>pre suf. c # cs = pre @ suf \<longrightarrow> coding_match_at suf = None"
    proof (intro allI impI)
      fix pre suf assume e: "c # cs = pre @ suf"
      show "coding_match_at suf = None"
      proof (cases pre)
        case Nil
        with e m show ?thesis by simp
      next
        case (Cons p ps)
        with e have "cs = ps @ suf" by simp
        with r Cons.IH show ?thesis by blast
      qed
    qed
  next
    assume a: "\<forall>pre suf. c # cs = pre @ suf \<longrightarrow> coding_match_at suf = None"
    then have m: "coding_match_at (c # cs) = None" by (metis append_Nil)
    have "\<forall>pre suf. cs = pre @ suf \<longrightarrow> coding_match_at suf = None"
      using a by (metis append_Cons)
    with Cons.IH have "re_search_coding cs = None" by simp
    with m show "re_search_coding (c # cs) = None" by simp
  qed
qed

lemma re_search_coding_spec_Some:
  "(re_search_coding line = Some name) =
     (\<exists>pre suf. line = pre @ suf \<and> spec_coding_token suf name
        \<and> (\<forall>pre' suf' n. line = pre' @ suf' \<and> length pre' < length pre
              \<longrightarrow> \<not> spec_coding_token suf' n))"
  unfolding re_search_coding_leftmost coding_match_at_iff coding_match_at_None_iff by blast

lemma re_search_coding_spec_None:
  "(re_search_coding line = None) =
     (\<forall>pre suf n. line = pre @ suf \<longrightarrow> \<not> spec_coding_token suf n)"
  unfolding re_search_coding_None coding_match_at_None_iff by blast

lemma readline_line: "is_line l \<Longrightarrow> readline (l @ rest) = (l, rest)"
proof (induction l)
  case Nil
  then show ?case by (simp add: is_line_def)
next
  case (Cons c cs)
  show ?case
  proof (cases "cs = []")
    case True
    with Cons.prems show ?thesis by (simp add: is_line_def)
  next
    case False
    with Cons.prems have "is_line cs" and "c \<noteq> CHR 0x0A"
      by (auto simp: is_line_def)
    with Cons.IH show ?thesis by simp
  qed
qed

lemma detect_coding_two_lines:
  "detect_coding fh =
     (case re_search_coding (first_line fh) of
        Some c \<Rightarrow> Some c
      | None \<Rightarrow> re_search_coding (second_line fh))"
  by (simp add: detect_coding_def first_line_def second_line_def numeral_2_eq_2
      split: prod.splits option.splits)

lemma detect_coding_prefix:
  assumes "is_line l1" "is_line l2"
  shows "detect_coding (l1 @ l2 @ rest) = detect_coding (l1 @ l2)"
proof -
  have a: "first_line (l1 @ l2 @ rest) = l1" "second_line (l1 @ l2 @ rest) = l2"
    using assms by (simp_all add: first_line_def second_line_def readline_line)
  have b: "first_line (l1 @ l2) = l1" "second_line (l1 @ l2) = l2"
    using assms readline_line [of l1 l2] readline_line [of l2 "[]"]
    by (simp_all add: first_line_def second_line_def)
  show ?thesis by (simp add: detect_coding_two_lines a b cong: option.case_cong)
qed

text \<open>
  Claim C6 fails on the code for a file whose lines end in a carriage return alone, the
  third form of a physical line of Python source: \<^verbatim>\<open>readline\<close> ends a line at a line
  feed only, so the whole file is its first line, and a declaration on the third line is
  honoured.
\<close>

theorem detect_coding_cr_third_line:
  "splitlines (''#!/usr/bin/python'' @ [CHR 0x0D] @ ''import os'' @ [CHR 0x0D]
               @ ''# coding: latin-1'' @ [CHR 0x0D])
     = [''#!/usr/bin/python'', ''import os'', ''# coding: latin-1'']
   \<and> detect_coding (''#!/usr/bin/python'' @ [CHR 0x0D] @ ''import os'' @ [CHR 0x0D]
               @ ''# coding: latin-1'' @ [CHR 0x0D])
     = Some ''latin-1''"
  by code_simp

text \<open>
  Claim C6, amended. The encoding detector reads two lines, a line ending at a line feed
  (a carriage return alone does not end one), and searches each for the pattern
  \<^verbatim>\<open>coding[=:]\s*([-\w.]+)\<close>: its result is the name found in the first line, else the
  name found in the second line, else \<open>None\<close>. What follows two complete lines has no
  effect on the result. The search of a line gives a name exactly when that is the name
  of the leftmost token of the line, and \<open>None\<close> exactly when the line holds no token. The
  detector is a total function into \<open>string option\<close>: it has no error to raise.
\<close>

theorem detect_coding_first_two_lines:
  "detect_coding fh =
     (case re_search_coding (first_line fh) of
        Some c \<Rightarrow> Some c
      | None \<Rightarrow> re_search_coding (second_line fh))
   \<and> (is_line l1 \<and> is_line l2 \<longrightarrow> detect_coding (l1 @ l2 @ rest) = detect_coding (l1 @ l2))
   \<and> (re_search_coding line = Some name) =
        (\<exists>pre suf. line = pre @ suf \<and> spec_coding_token suf name
           \<and> (\<forall>pre' suf' n. line = pre' @ suf' \<and> length pre' < length pre
                 \<longrightarrow> \<not> spec_coding_token suf' n))
   \<and> (re_search_coding line = None) =
        (\<forall>pre suf n. line = pre @ suf \<longrightarrow> \<not> spec_coding_token suf n)"
  using detect_coding_two_lines [of fh] detect_coding_prefix [of l1 l2 rest]
    re_search_coding_spec_Some [of line name] re_search_coding_spec_None [of line]
  by blast

text \<open>
  A declaration on the third line is ignored; one on the second line is found, and the
  whole name \<^verbatim>\<open>utf-8\<close> is the name of the token that starts at \<^verbatim>\<open>coding\<close>.
\<close>

theorem detect_coding_first_two_lines_witness:
  "is_line ''#!/usr/bin/python\<newline>'' \<and> is_line ''\<newline>''
   \<and> detect_coding (''#!/usr/bin/python\<newline>'' @ ''\<newline>'' @ ''# coding: latin-1\<newline>'') = None
   \<and> re_search_coding ''# vim: set fileencoding=utf-8 :\<newline>'' = Some ''utf-8''
   \<and> detect_coding ''#!/usr/bin/python\<newline># vim: set fileencoding=utf-8 :\<newline>x = 1'' = Some ''utf-8''
   \<and> (\<exists>pre suf. ''# vim: set fileencoding=utf-8 :\<newline>'' = pre @ suf
         \<and> spec_coding_token suf ''utf-8'')
   \<and> re_search_coding ''# no declaration here\<newline>'' = None
   \<and> \<not> spec_coding_token ''declaration here\<newline>'' ''x''"
proof -
  have a: "is_line ''#!/usr/bin/python\<newline>'' \<and> is_line ''\<newline>''"
    by (simp add: is_line_def)
  have b: "detect_coding (''#!/usr/bin/python\<newline>'' @ ''\<newline>'') = None"
    by code_simp
  have c: "re_search_coding ''# vim: set fileencoding=utf-8 :\<newline>'' = Some ''utf-8''"
    by code_simp
  have d: "detect_coding ''#!/usr/bin/python\<newline># vim: set fileencoding=utf-8 :\<newline>x = 1'' = Some ''utf-8''"
    by code_simp
  have e: "re_search_coding ''# no declaration here\<newline>'' = None"
    by code_simp
  have f: "''# no declaration here\<newline>'' = ''# no '' @ ''declaration here\<newline>''"
    by simp
  note t1 = detect_coding_first_two_lines [where ?l1.0 = "''#!/usr/bin/python\<newline>''"
        and ?l2.0 = "''\<newline>''" and rest = "''# coding: latin-1\<newline>''"
        and line = "''# vim: set fileencoding=utf-8 :\<newline>''" and name = "''utf-8''"]
  note t2 = detect_coding_first_two_lines [where line = "''# no declaration here\<newline>''"]
  from t1 [THEN conjunct2, THEN conjunct2, THEN conjunct1, THEN iffD1, OF c]
  obtain pre suf where g0: "''# vim: set fileencoding=utf-8 :\<newline>'' = pre @ suf"
    "spec_coding_token suf ''utf-8''"
    by blast
  then have g: "\<exists>pre suf. ''# vim: set fileencoding=utf-8 :\<newline>'' = pre @ suf
         \<and> spec_coding_token suf ''utf-8''"
    by blast
  have h: "\<not> spec_coding_token ''declaration here\<newline>'' ''x''"
    using t2 [THEN conjunct2, THEN conjunct2, THEN conjunct2, THEN iffD1, OF e, rule_format, OF f] .
  have "detect_coding (''#!/usr/bin/python\<newline>'' @ ''\<newline>'' @ ''# coding: latin-1\<newline>'')
      = detect_coding (''#!/usr/bin/python\<newline>'' @ ''\<newline>'')"
    using t1 [THEN conjunct2, THEN conjunct1, rule_format, OF a] .
  with b have i: "detect_coding (''#!/usr/bin/python\<newline>'' @ ''\<newline>'' @ ''# coding: latin-1\<newline>'') = None"
    by (simp only:)
  from a c d e g h i show ?thesis by (intro conjI) (simp_all only: simp_thms)
qed

end
